theory Spec2Isabelle
  imports Main
begin

section \<open>Text and bytes\<close>

text \<open>
  A \<open>QString\<close> is the list of its UTF-16 code units (integers from 0 to 65535), a
  \<open>QByteArray\<close> the list of its bytes. A text of the interpreter is a list of code units
  as well, a character outside the basic plane being its surrogate pair. \<open>str\<close> turns a
  literal into its code units.
\<close>

type_synonym qstring = "int list"
type_synonym qbytearray = "int list"

definition str :: "string \<Rightarrow> qstring" where
  "str s = map of_char s"

definition nl :: qstring where
  "nl = [0x0A]"

text \<open>\<open>QChar::isSpace\<close>: the white space of ASCII, U+0085, and the separators of Unicode.\<close>

definition isSpace :: "int \<Rightarrow> bool" where
  "isSpace c =
     (c = 0x20 \<or> (0x09 \<le> c \<and> c \<le> 0x0D) \<or> c = 0x85 \<or> c = 0xA0 \<or> c = 0x1680 \<or>
      (0x2000 \<le> c \<and> c \<le> 0x200A) \<or> c = 0x2028 \<or> c = 0x2029 \<or> c = 0x202F \<or>
      c = 0x205F \<or> c = 0x3000)"

text \<open>\<open>QString::trimmed\<close>: white space removed at both ends.\<close>

definition trimmed :: "qstring \<Rightarrow> qstring" where
  "trimmed s = rev (dropWhile isSpace (rev (dropWhile isSpace s)))"

definition startsWith :: "qstring \<Rightarrow> qstring \<Rightarrow> bool" where
  "startsWith s p = (take (length p) s = p)"

text \<open>\<open>QString::mid(n)\<close>: the text from position \<open>n\<close> on (empty when \<open>n\<close> is past the end).\<close>

definition mid :: "qstring \<Rightarrow> nat \<Rightarrow> qstring" where
  "mid s n = drop n s"

text \<open>\<open>QString::split(sep)\<close> keeping empty parts: the empty text has the one part \<open>""\<close>.\<close>

fun split :: "int \<Rightarrow> qstring \<Rightarrow> qstring list" where
  "split sep [] = [[]]"
| "split sep (c # cs) =
     (if c = sep then [] # split sep cs
      else (case split sep cs of
              [] \<Rightarrow> [[c]]
            | l # ls \<Rightarrow> (c # l) # ls))"


subsection \<open>From a text of the interpreter to a \<open>QString\<close>\<close>

text \<open>
  The executor reads every text of the interpreter as
  \<open>QString::fromUtf8(PyUnicode_AsUTF8(o))\<close>, or assigns the \<open>char\<close> pointer to a
  \<open>QString\<close>, which is the same conversion. \<open>PyUnicode_AsUTF8\<close> fails on a text with an
  unpaired surrogate and gives a null pointer, of which \<open>fromUtf8\<close> makes the empty
  text; and \<open>fromUtf8\<close> of a \<open>char\<close> pointer stops at the first NUL. Otherwise the text
  comes through as it is.
\<close>

definition high_surrogate :: "int \<Rightarrow> bool" where
  "high_surrogate c = (0xD800 \<le> c \<and> c \<le> 0xDBFF)"

definition low_surrogate :: "int \<Rightarrow> bool" where
  "low_surrogate c = (0xDC00 \<le> c \<and> c \<le> 0xDFFF)"

fun well_formed :: "qstring \<Rightarrow> bool" where
  "well_formed [] = True"
| "well_formed [c] = (\<not> high_surrogate c \<and> \<not> low_surrogate c)"
| "well_formed (c # d # rest) =
     (if high_surrogate c then low_surrogate d \<and> well_formed rest
      else \<not> low_surrogate c \<and> well_formed (d # rest))"

definition PyUnicode_AsUTF8 :: "qstring \<Rightarrow> qstring option" where
  "PyUnicode_AsUTF8 text = (if well_formed text then Some text else None)"

definition fromUtf8 :: "qstring option \<Rightarrow> qstring" where
  "fromUtf8 chars =
     (case chars of
        None \<Rightarrow> []
      | Some text \<Rightarrow> takeWhile (\<lambda>c. c \<noteq> 0) text)"

subsection \<open>Base64\<close>

text \<open>
  \<open>QByteArray::fromBase64\<close> with its default options: every byte outside the alphabet
  (padding included) is skipped, the 6-bit digits of the others are accumulated and each
  complete group of 8 bits is emitted. A code unit above 127 stands for bytes of UTF-8
  that are all outside the alphabet.
\<close>

definition base64_digit :: "int \<Rightarrow> int option" where
  "base64_digit ch =
     (if 0x41 \<le> ch \<and> ch \<le> 0x5A then Some (ch - 0x41)
      else if 0x61 \<le> ch \<and> ch \<le> 0x7A then Some (ch - 0x61 + 26)
      else if 0x30 \<le> ch \<and> ch \<le> 0x39 then Some (ch - 0x30 + 52)
      else if ch = 0x2B then Some 62
      else if ch = 0x2F then Some 63
      else None)"

fun base64_loop :: "int \<Rightarrow> nat \<Rightarrow> int list \<Rightarrow> qbytearray" where
  "base64_loop buf nbits [] = []"
| "base64_loop buf nbits (ch # rest) =
     (case base64_digit ch of
        None \<Rightarrow> base64_loop buf nbits rest
      | Some d \<Rightarrow>
          (let buf' = buf * 64 + d; nbits' = nbits + 6 in
           if 8 \<le> nbits'
           then (buf' div 2 ^ (nbits' - 8)) mod 256 #
                base64_loop (buf' mod 2 ^ (nbits' - 8)) (nbits' - 8) rest
           else base64_loop buf' nbits' rest))"

definition fromBase64 :: "int list \<Rightarrow> qbytearray" where
  "fromBase64 base64 = base64_loop 0 0 base64"

section \<open>JSON documents\<close>

text \<open>
  \<open>QJsonDocument::fromJson\<close> is library code (Qt 5). It is modelled by what its parser
  accepts and builds: a tokeniser that reads the text unit by unit, and a stack machine
  over the tokens. The text is what \<open>toUtf8\<close> hands to the parser, seen through its
  decoding: a \<open>QString\<close> that came from \<open>fromUtf8\<close> has no unpaired surrogate, so every
  character outside an escape comes back as the code units it had. As in the library,
  \<^item> white space is space, tab, line feed and carriage return, and a byte order mark at
    the start is skipped;
  \<^item> the root is an array or an object, nothing but white space follows it, and no more
    than 1024 containers are open at a time;
  \<^item> inside a string every character stands for itself, control characters included; a
    backslash before \<open>u\<close> takes four hexadecimal digits and gives that code unit, a
    backslash before one of \<open>"\/bfnrt\<close> gives the character of the escape, and a
    backslash before any other ASCII character gives that character;
  \<^item> a number is scanned as \<open>[-] (0 | digits) [. digits] [e [+|-] digits]\<close>, each run of
    digits possibly empty, and accepted when \<open>QByteArray::toDouble\<close> converts it: it has
    a digit before the exponent, a digit in the exponent when there is one, and its value
    neither overflows a double nor rounds to zero from a mantissa that is not zero;
  \<^item> of several members of an object with one key, the last is kept.
  A parse error is \<open>None\<close>. The limit of the library on the size of a document (128 MB)
  is left out.
\<close>

datatype json =
    JNull
  | JBool bool
  | JNumber "int list"
  | JString qstring
  | JArray "json list"
  | JObject "(qstring \<times> json) list"

datatype token =
    LBrace | RBrace | LBracket | RBracket | Colon | Comma
  | TString qstring | TNumber "int list" | TWord "int list"

datatype lex_mode =
    Idle
  | InString qstring
  | InEscape qstring
  | InUnicode qstring "int list"
  | InNumber "int list"
  | InWord "int list"

definition is_digit :: "int \<Rightarrow> bool" where
  "is_digit c = (0x30 \<le> c \<and> c \<le> 0x39)"

definition is_hex :: "int \<Rightarrow> bool" where
  "is_hex c = (is_digit c \<or> (0x61 \<le> c \<and> c \<le> 0x66) \<or> (0x41 \<le> c \<and> c \<le> 0x46))"

definition is_letter :: "int \<Rightarrow> bool" where
  "is_letter c = (0x61 \<le> c \<and> c \<le> 0x7A)"

definition json_space :: "int \<Rightarrow> bool" where
  "json_space c = (c = 0x20 \<or> c = 0x09 \<or> c = 0x0A \<or> c = 0x0D)"

definition hex_digit :: "int \<Rightarrow> int" where
  "hex_digit c =
     (if is_digit c then c - 0x30
      else if 0x61 \<le> c \<and> c \<le> 0x66 then c - 0x61 + 10
      else c - 0x41 + 10)"

definition hex_value :: "int list \<Rightarrow> int" where
  "hex_value h = foldl (\<lambda>acc c. acc * 16 + hex_digit c) 0 h"

text \<open>\<open>scanEscapeSequence\<close>, for the character after the backslash other than \<open>u\<close>.\<close>

definition escape_char :: "int \<Rightarrow> int option" where
  "escape_char c =
     (if c = 0x62 then Some 0x08
      else if c = 0x66 then Some 0x0C
      else if c = 0x6E then Some 0x0A
      else if c = 0x72 then Some 0x0D
      else if c = 0x74 then Some 0x09
      else if 0 \<le> c \<and> c < 0x80 then Some c
      else None)"

subsection \<open>Numbers\<close>

definition digits_value :: "int list \<Rightarrow> int" where
  "digits_value ds = foldl (\<lambda>acc c. acc * 10 + (c - 0x30)) 0 ds"

text \<open>
  The scan of \<open>parseNumber\<close>: the digits before the point, the digits after it, the
  exponent with its sign when there is one, and what the scan has not consumed.
\<close>

definition scan_number :: "int list \<Rightarrow> int list \<times> int list \<times> (bool \<times> int list) option \<times> int list" where
  "scan_number n =
     (let n1 = (case n of
                  [] \<Rightarrow> []
                | m # r \<Rightarrow> if m = 0x2D then r else n);
          ip = (case n1 of
                  [] \<Rightarrow> []
                | z # r \<Rightarrow> if z = 0x30 then [z] else takeWhile is_digit n1);
          r1 = drop (length ip) n1;
          point = (case r1 of
                     [] \<Rightarrow> False
                   | p # r \<Rightarrow> p = 0x2E);
          fp = (if point then takeWhile is_digit (tl r1) else []);
          r2 = (if point then dropWhile is_digit (tl r1) else r1);
          expo = (case r2 of
                    [] \<Rightarrow> False
                  | e # r \<Rightarrow> e = 0x65 \<or> e = 0x45);
          neg = (expo \<and> (case tl r2 of
                              [] \<Rightarrow> False
                            | g # r \<Rightarrow> g = 0x2D));
          pos = (expo \<and> (case tl r2 of
                             [] \<Rightarrow> False
                           | g # r \<Rightarrow> g = 0x2B));
          r3 = (if neg \<or> pos then tl (tl r2) else tl r2)
      in (ip, fp,
          (if expo then Some (neg, takeWhile is_digit r3) else None),
          (if expo then dropWhile is_digit r3 else r2)))"

text \<open>
  The value \<open>m * 10 ^ k\<close> as a double: it is below the least value that rounds to
  infinity, and it does not round to zero unless \<open>m\<close> is zero.
\<close>

definition representable :: "int \<Rightarrow> int \<Rightarrow> bool" where
  "representable m k =
     (if 0 \<le> k then m * 10 ^ nat k < 2 ^ 1024 - 2 ^ 970
      else m < (2 ^ 1024 - 2 ^ 970) * 10 ^ nat (- k) \<and>
           (m = 0 \<or> 10 ^ nat (- k) < m * 2 ^ 1075))"

definition valid_number :: "int list \<Rightarrow> bool" where
  "valid_number n =
     (case scan_number n of
        (ip, fp, expo, rest) \<Rightarrow>
          rest = [] \<and> (ip \<noteq> [] \<or> fp \<noteq> []) \<and>
          (case expo of
             None \<Rightarrow> representable (digits_value (ip @ fp)) (- int (length fp))
           | Some (neg, xp) \<Rightarrow>
               xp \<noteq> [] \<and>
               representable (digits_value (ip @ fp))
                 ((if neg then - digits_value xp else digits_value xp)
                  - int (length fp))))"

definition number_char :: "int \<Rightarrow> bool" where
  "number_char c = (is_digit c \<or> c = 0x2B \<or> c = 0x2D \<or> c = 0x2E \<or> c = 0x65 \<or> c = 0x45)"

subsection \<open>Tokens\<close>

definition lex_idle :: "int \<Rightarrow> token list \<Rightarrow> (lex_mode \<times> token list) option" where
  "lex_idle c ts =
     (if json_space c then Some (Idle, ts)
      else if c = 0x7B then Some (Idle, LBrace # ts)
      else if c = 0x7D then Some (Idle, RBrace # ts)
      else if c = 0x5B then Some (Idle, LBracket # ts)
      else if c = 0x5D then Some (Idle, RBracket # ts)
      else if c = 0x3A then Some (Idle, Colon # ts)
      else if c = 0x2C then Some (Idle, Comma # ts)
      else if c = 0x22 then Some (InString [], ts)
      else if c = 0x2D \<or> c = 0x2E \<or> is_digit c then Some (InNumber [c], ts)
      else if is_letter c then Some (InWord [c], ts)
      else None)"

text \<open>One code unit of input; the tokens are collected in reverse.\<close>

fun lex_step :: "lex_mode \<times> token list \<Rightarrow> int \<Rightarrow> (lex_mode \<times> token list) option" where
  "lex_step (Idle, ts) c = lex_idle c ts"
| "lex_step (InString s, ts) c =
     (if c = 0x22 then Some (Idle, TString s # ts)
      else if c = 0x5C then Some (InEscape s, ts)
      else Some (InString (s @ [c]), ts))"
| "lex_step (InEscape s, ts) c =
     (if c = 0x75 then Some (InUnicode s [], ts)
      else (case escape_char c of
              None \<Rightarrow> None
            | Some e \<Rightarrow> Some (InString (s @ [e]), ts)))"
| "lex_step (InUnicode s h, ts) c =
     (if \<not> is_hex c then None
      else if length h < 3 then Some (InUnicode s (h @ [c]), ts)
      else Some (InString (s @ [hex_value (h @ [c])]), ts))"
| "lex_step (InNumber n, ts) c =
     (if number_char c then Some (InNumber (n @ [c]), ts)
      else if valid_number n then lex_idle c (TNumber n # ts)
      else None)"
| "lex_step (InWord w, ts) c =
     (if is_letter c then Some (InWord (w @ [c]), ts)
      else lex_idle c (TWord w # ts))"

text \<open>At the end of the text no token is open: the root container has been closed.\<close>

fun lex_end :: "lex_mode \<times> token list \<Rightarrow> token list option" where
  "lex_end (Idle, ts) = Some (rev ts)"
| "lex_end (InString s, ts) = None"
| "lex_end (InEscape s, ts) = None"
| "lex_end (InUnicode s h, ts) = None"
| "lex_end (InNumber n, ts) = None"
| "lex_end (InWord w, ts) = None"

fun lex_from :: "lex_mode \<times> token list \<Rightarrow> int list \<Rightarrow> token list option" where
  "lex_from st [] = lex_end st"
| "lex_from st (c # cs) =
     (case lex_step st c of
        None \<Rightarrow> None
      | Some st' \<Rightarrow> lex_from st' cs)"

definition eatBOM :: "int list \<Rightarrow> int list" where
  "eatBOM text =
     (case text of
        [] \<Rightarrow> []
      | c # rest \<Rightarrow> if c = 0xFEFF then rest else text)"

definition lex :: "int list \<Rightarrow> token list option" where
  "lex text = lex_from (Idle, []) (eatBOM text)"

subsection \<open>Documents\<close>

datatype frame =
    ArrayFrame "json list"
  | ObjectFrame "(qstring \<times> json) list" "qstring option"

datatype expect =
    Value | ValueOrEnd | KeyOrEnd | Key | ColonNext | CommaOrEnd | Finished json

definition nestingLimit :: nat where
  "nestingLimit = 1024"

fun push_value :: "json \<Rightarrow> frame list \<Rightarrow> (expect \<times> frame list) option" where
  "push_value v [] = Some (Finished v, [])"
| "push_value v (ArrayFrame xs # st) = Some (CommaOrEnd, ArrayFrame (xs @ [v]) # st)"
| "push_value v (ObjectFrame ms (Some k) # st) =
     Some (CommaOrEnd, ObjectFrame (ms @ [(k, v)]) None # st)"
| "push_value v (ObjectFrame ms None # st) = None"

definition literal :: "int list \<Rightarrow> json option" where
  "literal w =
     (if w = str ''null'' then Some JNull
      else if w = str ''true'' then Some (JBool True)
      else if w = str ''false'' then Some (JBool False)
      else None)"

fun close_array :: "frame list \<Rightarrow> (expect \<times> frame list) option" where
  "close_array (ArrayFrame xs # st) = push_value (JArray xs) st"
| "close_array _ = None"

fun close_object :: "frame list \<Rightarrow> (expect \<times> frame list) option" where
  "close_object (ObjectFrame ms None # st) = push_value (JObject ms) st"
| "close_object _ = None"

fun start_value :: "token \<Rightarrow> frame list \<Rightarrow> (expect \<times> frame list) option" where
  "start_value (TString s) st = push_value (JString s) st"
| "start_value (TNumber n) st = push_value (JNumber n) st"
| "start_value (TWord w) st =
     (case literal w of
        None \<Rightarrow> None
      | Some v \<Rightarrow> push_value v st)"
| "start_value LBrace st =
     (if nestingLimit \<le> length st then None else Some (KeyOrEnd, ObjectFrame [] None # st))"
| "start_value LBracket st =
     (if nestingLimit \<le> length st then None else Some (ValueOrEnd, ArrayFrame [] # st))"
| "start_value _ st = None"

fun start_key :: "token \<Rightarrow> frame list \<Rightarrow> (expect \<times> frame list) option" where
  "start_key (TString k) (ObjectFrame ms None # st) = Some (ColonNext, ObjectFrame ms (Some k) # st)"
| "start_key _ _ = None"

fun parse_step :: "expect \<times> frame list \<Rightarrow> token \<Rightarrow> (expect \<times> frame list) option" where
  "parse_step (Value, st) t = start_value t st"
| "parse_step (ValueOrEnd, st) t = (if t = RBracket then close_array st else start_value t st)"
| "parse_step (KeyOrEnd, st) t = (if t = RBrace then close_object st else start_key t st)"
| "parse_step (Key, st) t = start_key t st"
| "parse_step (ColonNext, st) t = (if t = Colon then Some (Value, st) else None)"
| "parse_step (CommaOrEnd, st) t =
     (if t = Comma
      then (case st of
              ArrayFrame xs # _ \<Rightarrow> Some (Value, st)
            | ObjectFrame ms k # _ \<Rightarrow> Some (Key, st)
            | [] \<Rightarrow> None)
      else if t = RBracket then close_array st
      else if t = RBrace then close_object st
      else None)"
| "parse_step (Finished v, st) t = None"

fun parse_from :: "expect \<times> frame list \<Rightarrow> token list \<Rightarrow> json option" where
  "parse_from (Finished (JArray xs), []) [] = Some (JArray xs)"
| "parse_from (Finished (JObject ms), []) [] = Some (JObject ms)"
| "parse_from _ [] = None"
| "parse_from st (t # ts) =
     (case parse_step st t of
        None \<Rightarrow> None
      | Some st' \<Rightarrow> parse_from st' ts)"

definition fromJson :: "int list \<Rightarrow> json option" where
  "fromJson text =
     (case lex text of
        None \<Rightarrow> None
      | Some ts \<Rightarrow> parse_from (Value, []) ts)"

text \<open>\<open>QJsonDocument::object()\<close>: the members of the root object, none when the root is an array.\<close>

fun object :: "json \<Rightarrow> (qstring \<times> json) list" where
  "object (JObject ms) = ms"
| "object _ = []"

text \<open>
  \<open>json[key].toString()\<close>: the text of the member when it is a string, the empty text
  when the member is missing or of another kind.
\<close>

definition toString :: "(qstring \<times> json) list \<Rightarrow> qstring \<Rightarrow> qstring" where
  "toString ms key =
     (case map_of (rev ms) key of
        Some (JString s) \<Rightarrow> s
      | _ \<Rightarrow> [])"

section \<open>Execution results\<close>

datatype Type = Text | Error | Html | Table | Image | Markdown | Rich

record Output =
  type :: Type
  content :: qstring
  imageData :: qbytearray

record ExecutionResult =
  success :: bool
  textOutput :: qstring
  error :: qstring
  plotData :: qbytearray
  outputs :: "Output list"

section \<open>The rich output protocol\<close>

definition sentinel :: qstring where
  "sentinel = str ''LOTUS_OUTPUT:''"

text \<open>The body of the loop of \<open>parseRichOutputs\<close>: the outputs one line appends.\<close>

definition parse_line :: "qstring \<Rightarrow> Output list" where
  "parse_line line =
     (if startsWith line sentinel
      then (let jsonStr = trimmed (mid line (length sentinel)) in
            case fromJson jsonStr of
              None \<Rightarrow> []
            | Some doc \<Rightarrow>
                (let json = object doc;
                     type = toString json (str ''type'');
                     content = toString json (str ''content'')
                 in if type = str ''text''
                    then [\<lparr>type = Text, content = content, imageData = []\<rparr>]
                    else if type = str ''html''
                    then [\<lparr>type = Html, content = content, imageData = []\<rparr>]
                    else if type = str ''table''
                    then [\<lparr>type = Table, content = content, imageData = []\<rparr>]
                    else if type = str ''image''
                    then [\<lparr>type = Image, content = [], imageData = fromBase64 content\<rparr>]
                    else if type = str ''error''
                    then [\<lparr>type = Error, content = content, imageData = []\<rparr>]
                    else if type = str ''rich''
                    then [\<lparr>type = Rich, content = content, imageData = []\<rparr>]
                    else if type = str ''markdown''
                    then [\<lparr>type = Markdown, content = content, imageData = []\<rparr>]
                    else []))
      else [])"

definition parseRichOutputs :: "qstring \<Rightarrow> Output list" where
  "parseRichOutputs stdoutText = concat (map parse_line (split 0x0A stdoutText))"

text \<open>
  The loop of \<open>execute\<close> that collects the plain text: every line followed by a newline,
  up to the first line that starts with the sentinel, where the loop breaks.
\<close>

fun plainText :: "qstring list \<Rightarrow> qstring" where
  "plainText [] = []"
| "plainText (line # rest) =
     (if startsWith line sentinel then [] else line @ nl @ plainText rest)"

text \<open>The end of \<open>execute\<close>, from "Combine output and error" on.\<close>

definition combine_output :: "qstring \<Rightarrow> qstring \<Rightarrow> ExecutionResult \<Rightarrow> ExecutionResult" where
  "combine_output stdoutText stderrText result =
     (let r1 =
        (if stdoutText \<noteq> []
         then (let outs = parseRichOutputs stdoutText;
                   txt = trimmed (plainText (split 0x0A stdoutText))
               in result\<lparr>outputs :=
                            (if txt = [] \<and> outs = []
                             then outs @ [\<lparr>type = Text, content = stdoutText, imageData = []\<rparr>]
                             else outs),
                         textOutput := txt\<rparr>)
         else result)
      in if stderrText \<noteq> []
         then (if error r1 \<noteq> []
               then r1\<lparr>error := stderrText @ nl @ error r1\<rparr>
               else r1\<lparr>error := stderrText\<rparr>)
         else r1)"

section \<open>The embedded interpreter\<close>

text \<open>
  The interpreter is library code as well. What the executor reads of a Python object is
  the name of its type and its \<open>repr\<close> (either may be unavailable). What it reads of
  the running interpreter are the dictionary of \<open>__main__\<close> in insertion order, with
  texts as keys, the \<open>output\<close> attribute of the two capture objects installed as
  \<open>sys.stdout\<close> and \<open>sys.stderr\<close> (\<open>None\<close> when the attribute is not a text), and
  what \<open>lotus_plot_capture.capture_current_plot()\<close> returns for the current figure (a
  text, or \<open>None\<close> for anything else).
\<close>

record PyObject =
  type_name :: "qstring option"
  repr_text :: "qstring option"

type_synonym namespace = "(qstring \<times> PyObject) list"

record Runtime =
  globals :: namespace
  stdout_output :: "qstring option"
  stderr_output :: "qstring option"
  current_plot :: "qstring option"

text \<open>An assignment in the dictionary: in place when the key exists, at the end otherwise.\<close>

fun bind :: "qstring \<Rightarrow> 'v \<Rightarrow> (qstring \<times> 'v) list \<Rightarrow> (qstring \<times> 'v) list" where
  "bind name v [] = [(name, v)]"
| "bind name v ((k, w) # rest) =
     (if k = name then (k, v) # rest else (k, w) # bind name v rest)"

text \<open>
  What the interpreter does in one call of \<open>execute\<close>, on a clock in milliseconds that
  starts when the alarm is armed: when \<open>PyRun_StringFlags\<close> comes back and how (\<open>None\<close>:
  it never does), the state of the interpreter after each number of milliseconds of the
  evaluation, which is the state a forced unwind leaves behind, and how long the three
  steps take that follow the evaluation while the alarm is still armed: the handling of
  the outcome (\<open>capturePlot\<close> after a return, the rendering of the exception after a
  failure), the reading of the stdout sink and the reading of the stderr sink. An
  interpreter maps the code and the state it starts from to all this.
\<close>

datatype outcome =
    Returned
  | Raised "qstring option" "qstring option"

record Evaluation =
  finish :: "(nat \<times> outcome) option"
  state_at :: "nat \<Rightarrow> Runtime"
  handling :: nat
  reading_stdout :: nat
  reading_stderr :: nat

type_synonym interpreter = "qstring \<Rightarrow> Runtime \<Rightarrow> Evaluation"

text \<open>
  What the host gives the executor: whether the interpreter starts, whether the main
  module and its dictionary are obtained (the dictionary of a fresh \<open>__main__\<close>),
  whether the two bootstrap scripts run, whether matplotlib can be imported, the
  object each bootstrap name is bound to, and whether \<open>longjmp\<close> puts back the signal
  mask that \<open>setjmp\<close> saw (it does not where \<open>setjmp\<close> does not save the mask, as with
  glibc on Linux).
\<close>

record Environment =
  interpreter_starts :: bool
  main_module :: bool
  main_dict :: "namespace option"
  capture_script_runs :: bool
  plot_script_runs :: bool
  matplotlib_imports :: bool
  bootstrap_object :: "qstring \<Rightarrow> PyObject"
  longjmp_restores_mask :: bool

section \<open>The executor\<close>

datatype signal =
    executionStarted
  | executionFinished bool
  | plotGenerated qbytearray

text \<open>
  The fields of the class. A pointer is modelled by whether it is set; the interpreter
  state the pointers lead to is \<open>runtime\<close>. The signals emitted so far are kept in
  \<open>emitted\<close>. \<open>sigalrmBlocked\<close> is state of the process: whether \<open>SIGALRM\<close> is blocked
  in its signal mask. The handler is installed with an empty \<open>sa_mask\<close> and no flags, so
  the signal is blocked while the handler runs, and the handler leaves by \<open>longjmp\<close>.
\<close>

record PythonExecutor =
  initialized :: bool
  lastErrorMessage :: qstring
  executionTimeout :: int
  memoryLimit :: int
  plotCaptureEnabled :: bool
  plotFormat :: qstring
  executionInterrupted :: bool
  pMainModule :: bool
  pGlobals :: bool
  pStdout :: bool
  pStderr :: bool
  pPlotCaptureModule :: bool
  runtime :: Runtime
  emitted :: "signal list"
  sigalrmBlocked :: bool

definition bind_all :: "Environment \<Rightarrow> qstring list \<Rightarrow> namespace \<Rightarrow> namespace" where
  "bind_all env names ns = fold (\<lambda>name. bind name (bootstrap_object env name)) names ns"

text \<open>The names the capture script binds in \<open>__main__\<close>, and the two sinks it installs.\<close>

definition setupStdoutRedirection :: "Environment \<Rightarrow> PythonExecutor \<Rightarrow> bool \<times> PythonExecutor" where
  "setupStdoutRedirection env s =
     (if \<not> capture_script_runs env then (False, s)
      else (True,
            s\<lparr>runtime := (runtime s)
                 \<lparr>globals := bind_all env [str ''sys'', str ''io'', str ''LotusStdoutCapture'']
                               (globals (runtime s)),
                  stdout_output := Some [],
                  stderr_output := Some []\<rparr>,
              pStdout := True,
              pStderr := True\<rparr>))"

definition setupPlotCapture :: "Environment \<Rightarrow> PythonExecutor \<Rightarrow> bool \<times> PythonExecutor" where
  "setupPlotCapture env s =
     (if \<not> plot_script_runs env then (False, s)
      else (True,
            s\<lparr>runtime := (runtime s)
                 \<lparr>globals := bind_all env
                    [str ''sys'', str ''io'', str ''base64'', str ''PlotCapture'',
                     str ''lotus_plot_capture'']
                    (globals (runtime s))\<rparr>,
              pPlotCaptureModule := True\<rparr>))"

text \<open>What is left of the interpreter after \<open>Py_Finalize\<close>: nothing.\<close>

definition no_runtime :: Runtime where
  "no_runtime = \<lparr>globals = [], stdout_output = None, stderr_output = None, current_plot = None\<rparr>"

definition cleanup :: "PythonExecutor \<Rightarrow> PythonExecutor" where
  "cleanup s =
     (if \<not> initialized s then s
      else s\<lparr>pPlotCaptureModule := False,
             runtime := no_runtime,
             initialized := False\<rparr>)"

definition initialize :: "Environment \<Rightarrow> PythonExecutor \<Rightarrow> bool \<times> PythonExecutor" where
  "initialize env s =
     (if initialized s then (True, s)
      else if \<not> interpreter_starts env
      then (False, s\<lparr>lastErrorMessage := str ''Failed to initialize Python interpreter''\<rparr>)
      else if \<not> main_module env
      then (False, cleanup (s\<lparr>lastErrorMessage := str ''Failed to create main module'',
                              pMainModule := False\<rparr>))
      else (case main_dict env of
              None \<Rightarrow>
                (False, cleanup (s\<lparr>lastErrorMessage := str ''Failed to get global dictionary'',
                                   pMainModule := True, pGlobals := False\<rparr>))
            | Some dict \<Rightarrow>
                (let s1 = s\<lparr>pMainModule := True, pGlobals := True,
                            runtime := \<lparr>globals = dict, stdout_output = None,
                                        stderr_output = None, current_plot = None\<rparr>\<rparr>
                 in case setupStdoutRedirection env s1 of
                      (False, s2) \<Rightarrow> (False, cleanup s2)
                    | (True, s2) \<Rightarrow>
                        (let s3 = (if plotCaptureEnabled s2 then snd (setupPlotCapture env s2) else s2);
                             s4 = s3\<lparr>runtime := (runtime s3)
                                    \<lparr>globals := bind_all env
                                       [str ''sys'', str ''io'', str ''base64'', str ''signal'']
                                       (globals (runtime s3))\<rparr>\<rparr>;
                             s5 = (if matplotlib_imports env
                                   then s4\<lparr>runtime := (runtime s4)
                                          \<lparr>globals := bind_all env
                                             [str ''matplotlib'', str ''plt'', str ''io'',
                                              str ''base64'']
                                             (globals (runtime s4))\<rparr>\<rparr>
                                   else s4)
                         in (True, s5\<lparr>initialized := True\<rparr>)))))"

definition restart :: "Environment \<Rightarrow> PythonExecutor \<Rightarrow> PythonExecutor" where
  "restart env s = snd (initialize env (cleanup s))"

definition interrupt :: "PythonExecutor \<Rightarrow> PythonExecutor" where
  "interrupt s = s\<lparr>executionInterrupted := True\<rparr>"

definition setExecutionTimeout :: "int \<Rightarrow> PythonExecutor \<Rightarrow> PythonExecutor" where
  "setExecutionTimeout milliseconds s = s\<lparr>executionTimeout := milliseconds\<rparr>"

definition enablePlotCapture :: "bool \<Rightarrow> PythonExecutor \<Rightarrow> PythonExecutor" where
  "enablePlotCapture enable s = s\<lparr>plotCaptureEnabled := enable\<rparr>"

text \<open>The executor as its constructor leaves it, in a process that has \<open>SIGALRM\<close> unblocked.\<close>

definition PythonExecutor :: PythonExecutor where
  "PythonExecutor =
     \<lparr>initialized = False, lastErrorMessage = [], executionTimeout = 10000, memoryLimit = 0,
      plotCaptureEnabled = True, plotFormat = str ''PNG'', executionInterrupted = False,
      pMainModule = False, pGlobals = False, pStdout = False, pStderr = False,
      pPlotCaptureModule = False,
      runtime = no_runtime, emitted = [], sigalrmBlocked = False\<rparr>"

subsection \<open>Numbers\<close>

text \<open>Division of \<open>int\<close> in C++ truncates towards zero.\<close>

definition cdiv :: "int \<Rightarrow> int \<Rightarrow> int" where
  "cdiv a b = (if (a < 0) = (b < 0) then \<bar>a\<bar> div \<bar>b\<bar> else - (\<bar>a\<bar> div \<bar>b\<bar>))"

fun digits :: "nat \<Rightarrow> qstring" where
  "digits n =
     (if n < 10 then [0x30 + int n]
      else digits (n div 10) @ [0x30 + int (n mod 10)])"

text \<open>\<open>QString::number\<close> of an \<open>int\<close>, in base 10.\<close>

definition number :: "int \<Rightarrow> qstring" where
  "number n = (if n < 0 then 0x2D # digits (nat (- n)) else digits (nat n))"

subsection \<open>Plots\<close>

text \<open>\<open>clear_plots\<close> of the helper: no figure is left.\<close>

definition clear_plots :: "Runtime \<Rightarrow> Runtime" where
  "clear_plots rt = rt\<lparr>current_plot := None\<rparr>"

text \<open>
  \<open>capturePlot\<close>: the text the helper returns is decoded up to its first NUL, and the
  bytes go out with the signal \<open>plotGenerated\<close>.
\<close>

definition capturePlot :: "PythonExecutor \<Rightarrow> PythonExecutor" where
  "capturePlot s =
     (if \<not> pPlotCaptureModule s then s
      else (case current_plot (runtime s) of
              None \<Rightarrow> s
            | Some pResult \<Rightarrow>
                (case PyUnicode_AsUTF8 pResult of
                   None \<Rightarrow> s
                 | Some base64Data \<Rightarrow>
                     s\<lparr>emitted := emitted s @
                          [plotGenerated (fromBase64 (takeWhile (\<lambda>c. c \<noteq> 0) base64Data))]\<rparr>)))"

subsection \<open>Running a snippet\<close>

text \<open>
  \<open>alarm(executionTimeout / 1000)\<close>: the quotient is converted to \<open>unsigned int\<close>, and
  \<open>alarm(0)\<close> arms nothing.
\<close>

definition alarm_seconds :: "PythonExecutor \<Rightarrow> nat" where
  "alarm_seconds s = nat (cdiv (executionTimeout s) 1000 mod 2 ^ 32)"

text \<open>
  The moment the handler runs, in milliseconds after the alarm is armed: never when no
  alarm is armed, and never while \<open>SIGALRM\<close> is blocked.
\<close>

definition deadline :: "PythonExecutor \<Rightarrow> nat option" where
  "deadline s =
     (if alarm_seconds s = 0 then None
      else if sigalrmBlocked s then None
      else Some (alarm_seconds s * 1000))"

text \<open>
  The moment the handler runs, when that is before a step ending at time \<open>t\<close> is
  complete.
\<close>

definition fired :: "nat option \<Rightarrow> nat \<Rightarrow> nat option" where
  "fired d t =
     (case d of
        None \<Rightarrow> None
      | Some ms \<Rightarrow> if ms < t then Some ms else None)"

text \<open>The message of a raised exception: \<open>str\<close> of its value, the formatted traceback before it.\<close>

definition render_error :: "qstring option \<Rightarrow> qstring option \<Rightarrow> qstring" where
  "render_error pValue pTraceback =
     (let errorMsg = (case pValue of
                        None \<Rightarrow> []
                      | Some pStr \<Rightarrow> fromUtf8 (PyUnicode_AsUTF8 pStr))
      in case pTraceback of
           None \<Rightarrow> errorMsg
         | Some pJoined \<Rightarrow> fromUtf8 (PyUnicode_AsUTF8 pJoined) @ errorMsg)"

text \<open>Reading a sink and clearing it.\<close>

definition take_stdout :: "PythonExecutor \<Rightarrow> qstring \<times> PythonExecutor" where
  "take_stdout s =
     (if pStdout s
      then (case stdout_output (runtime s) of
              None \<Rightarrow> ([], s)
            | Some pOutput \<Rightarrow>
                (fromUtf8 (PyUnicode_AsUTF8 pOutput),
                 s\<lparr>runtime := (runtime s)\<lparr>stdout_output := Some []\<rparr>\<rparr>))
      else ([], s))"

definition take_stderr :: "PythonExecutor \<Rightarrow> qstring \<times> PythonExecutor" where
  "take_stderr s =
     (if pStderr s
      then (case stderr_output (runtime s) of
              None \<Rightarrow> ([], s)
            | Some pOutput \<Rightarrow>
                (fromUtf8 (PyUnicode_AsUTF8 pOutput),
                 s\<lparr>runtime := (runtime s)\<lparr>stderr_output := Some []\<rparr>\<rparr>))
      else ([], s))"

definition timeout_message :: "PythonExecutor \<Rightarrow> qstring" where
  "timeout_message s =
     str ''Execution timed out after '' @ number (cdiv (executionTimeout s) 1000) @
     str '' seconds''"

definition empty_result :: ExecutionResult where
  "empty_result = \<lparr>success = False, textOutput = [], error = [], plotData = [], outputs = []\<rparr>"

text \<open>The previous plot is cleared and \<open>executionStarted\<close> is emitted.\<close>

definition start :: "PythonExecutor \<Rightarrow> PythonExecutor" where
  "start s =
     (let s1 = (if pPlotCaptureModule s
                then s\<lparr>runtime := clear_plots (runtime s)\<rparr>
                else s)
      in s1\<lparr>emitted := emitted s1 @ [executionStarted]\<rparr>)"

text \<open>
  The start of \<open>execute\<close>, up to \<open>emit executionStarted()\<close>: an early return (\<open>Inl\<close>) or
  the executor ready to evaluate (\<open>Inr\<close>).
\<close>

definition begin_execute :: "Environment \<Rightarrow> PythonExecutor \<Rightarrow> (ExecutionResult \<times> PythonExecutor) + PythonExecutor" where
  "begin_execute env s =
     (let s0 = s\<lparr>executionInterrupted := False\<rparr>;
          (ok, s1) = (if \<not> initialized s0 then initialize env s0 else (True, s0))
      in if \<not> ok then Inl (empty_result\<lparr>error := lastErrorMessage s1\<rparr>, s1)
         else if executionInterrupted s1
         then Inl (empty_result\<lparr>success := False,
                                 error := str ''Execution interrupted by user''\<rparr>, s1)
         else Inr (start s1))"

text \<open>The branch after the evaluation has come back: a return, or an exception.\<close>

definition handle_outcome :: "outcome \<Rightarrow> PythonExecutor \<Rightarrow> ExecutionResult \<times> PythonExecutor" where
  "handle_outcome oc s =
     (case oc of
        Returned \<Rightarrow>
          (empty_result\<lparr>success := True\<rparr>,
           if plotCaptureEnabled s then capturePlot s else s)
      | Raised pValue pTraceback \<Rightarrow>
          (empty_result\<lparr>success := False, error := render_error pValue pTraceback\<rparr>, s))"

text \<open>
  The branch of \<open>setjmp\<close> that the handler jumps to. The result is that of a timeout
  whatever it held before; the locals \<open>stdoutText\<close> and \<open>stderrText\<close> hold what was assigned
  to them before the jump. The handler ran with \<open>SIGALRM\<close> blocked and left by
  \<open>longjmp\<close>; the signal stays blocked unless \<open>longjmp\<close> puts the mask back.
\<close>

datatype ending = Completed | Unwound

definition unwind :: "Environment \<Rightarrow> PythonExecutor \<Rightarrow> qstring \<Rightarrow> qstring \<Rightarrow> ending \<times> qstring \<times> qstring \<times> ExecutionResult \<times> PythonExecutor" where
  "unwind env s stdoutText stderrText =
     (Unwound, stdoutText, stderrText,
      empty_result\<lparr>success := False, error := timeout_message s\<rparr>,
      s\<lparr>sigalrmBlocked := \<not> longjmp_restores_mask env\<rparr>)"

text \<open>
  The region from \<open>alarm\<close> to \<open>alarm(0)\<close>: the evaluation, the handling of its outcome
  and the reading of the two sinks, each of which may be cut short by the handler. A
  step takes effect when it ends. With no handler to run, an evaluation that never comes
  back keeps the call from returning (\<open>None\<close>).
\<close>

definition evaluate :: "interpreter \<Rightarrow> Environment \<Rightarrow> PythonExecutor \<Rightarrow> qstring \<Rightarrow> (ending \<times> qstring \<times> qstring \<times> ExecutionResult \<times> PythonExecutor) option" where
  "evaluate py env s code =
     (let ev = py code (runtime s); d = deadline s in
      case finish ev of
        None \<Rightarrow>
          (case d of
             None \<Rightarrow> None
           | Some ms \<Rightarrow> Some (unwind env (s\<lparr>runtime := state_at ev ms\<rparr>) [] []))
      | Some (t, oc) \<Rightarrow>
          (case fired d t of
             Some ms \<Rightarrow> Some (unwind env (s\<lparr>runtime := state_at ev ms\<rparr>) [] [])
           | None \<Rightarrow>
               (let s1 = s\<lparr>runtime := state_at ev t\<rparr>;
                    t1 = t + handling ev
                in case fired d t1 of
                     Some ms \<Rightarrow> Some (unwind env s1 [] [])
                   | None \<Rightarrow>
                       (let (result, s2) = handle_outcome oc s1;
                            t2 = t1 + reading_stdout ev
                        in case fired d t2 of
                             Some ms \<Rightarrow> Some (unwind env s2 [] [])
                           | None \<Rightarrow>
                               (let (stdoutText, s3) = take_stdout s2;
                                    t3 = t2 + reading_stderr ev
                                in case fired d t3 of
                                     Some ms \<Rightarrow> Some (unwind env s3 stdoutText [])
                                   | None \<Rightarrow>
                                       (let (stderrText, s4) = take_stderr s3
                                        in Some (Completed, stdoutText, stderrText,
                                                 result, s4)))))))"

text \<open>\<open>execute\<close>: \<open>None\<close> when the call never returns.\<close>

definition execute :: "interpreter \<Rightarrow> Environment \<Rightarrow> PythonExecutor \<Rightarrow> qstring \<Rightarrow> (ExecutionResult \<times> PythonExecutor) option" where
  "execute py env s code =
     (case begin_execute env s of
        Inl early \<Rightarrow> Some early
      | Inr s1 \<Rightarrow>
          (case evaluate py env s1 code of
             None \<Rightarrow> None
           | Some (how, stdoutText, stderrText, result, s2) \<Rightarrow>
               (let result' = combine_output stdoutText stderrText result
                in Some (result', s2\<lparr>emitted := emitted s2 @ [executionFinished (success result')]\<rparr>))))"

subsection \<open>Variable inspection\<close>

text \<open>A \<open>QJsonObject\<close>: its members in the order of their keys, one member for a key.\<close>

type_synonym QJsonObject = "(qstring \<times> json) list"

fun key_less :: "qstring \<Rightarrow> qstring \<Rightarrow> bool" where
  "key_less [] [] = False"
| "key_less [] (y # ys) = True"
| "key_less (x # xs) [] = False"
| "key_less (x # xs) (y # ys) = (x < y \<or> (x = y \<and> key_less xs ys))"

fun insert_member :: "qstring \<Rightarrow> json \<Rightarrow> QJsonObject \<Rightarrow> QJsonObject" where
  "insert_member key v [] = [(key, v)]"
| "insert_member key v ((k, w) # rest) =
     (if k = key then (key, v) # rest
      else if key_less key k then (key, v) # (k, w) # rest
      else (k, w) # insert_member key v rest)"

definition private_name :: "qstring \<Rightarrow> bool" where
  "private_name name = (startsWith name (str ''_'') \<and> \<not> startsWith name (str ''__''))"

definition internal_name :: "qstring \<Rightarrow> bool" where
  "internal_name name =
     (name = str ''In'' \<or> name = str ''Out'' \<or> name = str ''exit'' \<or> name = str ''quit'' \<or>
      name = str ''get_ipython'' \<or> name = str ''open'' \<or> name = str ''quit'' \<or>
      name = str ''exit'' \<or> name = str ''__name__'' \<or> name = str ''__builtins__'' \<or>
      name = str ''__doc__'' \<or> name = str ''__loader__'' \<or> name = str ''__spec__'' \<or>
      name = str ''__package__'')"

text \<open>The text of an object that may be missing.\<close>

definition text_of :: "qstring option \<Rightarrow> qstring" where
  "text_of t =
     (case t of
        None \<Rightarrow> []
      | Some x \<Rightarrow> fromUtf8 (PyUnicode_AsUTF8 x))"

text \<open>The body of the loop of \<open>getVariables\<close> for one key of the dictionary.\<close>

definition add_variable :: "qstring \<times> PyObject \<Rightarrow> QJsonObject \<Rightarrow> QJsonObject" where
  "add_variable binding variables =
     (let name = fromUtf8 (PyUnicode_AsUTF8 (fst binding)); value = snd binding in
      if private_name name then variables
      else if internal_name name then variables
      else (let typeName = text_of (type_name value);
                repr = text_of (repr_text value);
                varInfo = JObject [(str ''type'', JString typeName), (str ''value'', JString repr)]
            in insert_member name varInfo variables))"

definition getVariables :: "PythonExecutor \<Rightarrow> QJsonObject" where
  "getVariables s =
     (if \<not> initialized s then []
      else if \<not> pGlobals s then []
      else fold add_variable (globals (runtime s)) [])"

text \<open>\<open>VariableInspector::parsePythonValue\<close>; no code of the repository calls it.\<close>

definition parsePythonValue :: "qstring \<Rightarrow> qstring" where
  "parsePythonValue repr =
     (let maxLength = 100 in
      if length repr \<le> maxLength then repr
      else take maxLength repr @ str ''...'')"

section \<open>A host and some snippets\<close>

text \<open>
  \<open>LotusStdoutCapture.write\<close> of the capture script: \<open>self.output += text\<close>.
\<close>

definition write_stdout :: "qstring \<Rightarrow> Runtime \<Rightarrow> Runtime" where
  "write_stdout text rt = rt\<lparr>stdout_output := map_option (\<lambda>output. output @ text) (stdout_output rt)\<rparr>"

definition write_stderr :: "qstring \<Rightarrow> Runtime \<Rightarrow> Runtime" where
  "write_stderr text rt = rt\<lparr>stderr_output := map_option (\<lambda>output. output @ text) (stderr_output rt)\<rparr>"

definition assign :: "qstring \<Rightarrow> PyObject \<Rightarrow> Runtime \<Rightarrow> Runtime" where
  "assign name obj rt = rt\<lparr>globals := bind name obj (globals rt)\<rparr>"

text \<open>
  A call in which the evaluation comes back at once and the steps after it take no
  time, and one in which the evaluation never comes back.
\<close>

definition at_once :: "outcome \<Rightarrow> Runtime \<Rightarrow> Evaluation" where
  "at_once oc rt =
     \<lparr>finish = Some (0, oc), state_at = (\<lambda>t. rt),
      handling = 0, reading_stdout = 0, reading_stderr = 0\<rparr>"

definition forever :: "Runtime \<Rightarrow> Evaluation" where
  "forever rt =
     \<lparr>finish = None, state_at = (\<lambda>t. rt),
      handling = 0, reading_stdout = 0, reading_stderr = 0\<rparr>"

definition py_int :: "string \<Rightarrow> PyObject" where
  "py_int literal_text = \<lparr>type_name = Some (str ''int''), repr_text = Some (str literal_text)\<rparr>"

definition py_str :: "qstring \<Rightarrow> PyObject" where
  "py_str text = \<lparr>type_name = Some (str ''str''), repr_text = Some (0x27 # text @ [0x27])\<rparr>"

definition py_none :: PyObject where
  "py_none = \<lparr>type_name = Some (str ''NoneType''), repr_text = Some (str ''None'')\<rparr>"

definition py_module :: "qstring \<Rightarrow> PyObject" where
  "py_module name =
     \<lparr>type_name = Some (str ''module''),
      repr_text = Some (str ''<module '' @ [0x27] @ name @ [0x27] @ str ''>'')\<rparr>"

definition py_class :: "qstring \<Rightarrow> PyObject" where
  "py_class name =
     \<lparr>type_name = Some (str ''type''),
      repr_text = Some (str ''<class '' @ [0x27] @ str ''__main__.'' @ name @ [0x27] @ str ''>'')\<rparr>"

text \<open>
  A Linux host on which everything the initialisation asks for is there. The dictionary
  of a fresh \<open>__main__\<close> has its seven names.
\<close>

definition host :: Environment where
  "host =
     \<lparr>interpreter_starts = True,
      main_module = True,
      main_dict = Some [(str ''__name__'', py_str (str ''__main__'')),
                        (str ''__doc__'', py_none),
                        (str ''__package__'', py_none),
                        (str ''__loader__'', py_class (str ''BuiltinImporter'')),
                        (str ''__spec__'', py_none),
                        (str ''__annotations__'',
                           \<lparr>type_name = Some (str ''dict''), repr_text = Some (str ''{}'')\<rparr>),
                        (str ''__builtins__'', py_module (str ''builtins''))],
      capture_script_runs = True,
      plot_script_runs = True,
      matplotlib_imports = True,
      bootstrap_object =
        (\<lambda>name. if name = str ''LotusStdoutCapture'' \<or> name = str ''PlotCapture''
                then py_class name
                else if name = str ''lotus_plot_capture''
                then \<lparr>type_name = Some (str ''PlotCapture''),
                      repr_text = Some (str ''<__main__.PlotCapture object>'')\<rparr>
                else py_module name),
      longjmp_restores_mask = False\<rparr>"

text \<open>
  The interpreter on the snippets used below, by what each of them does in Python; any
  other code is a syntax error.
\<close>

definition python :: interpreter where
  \<open>python code rt =
     (if code = str ''while True: pass'' then forever rt
      else if code = str ''x = 1'' @ nl @ str ''while True: pass''
      then forever (assign (str ''x'') (py_int ''1'') rt)
      else if code = str ''print(x)''
      then (case map_of (globals rt) (str ''x'') of
              Some obj \<Rightarrow>
                at_once Returned (write_stdout (case repr_text obj of
                                                  None \<Rightarrow> nl
                                                | Some r \<Rightarrow> r @ nl) rt)
            | None \<Rightarrow>
                at_once (Raised (Some (str ''name '' @ [0x27] @ str ''x'' @ [0x27] @
                                       str '' is not defined''))
                                (Some (str ''  File "<string>", line 1, in <module>'' @ nl))) rt)
      else if code = str ''print(1)'' @ nl @ str ''while True: pass''
      then forever (write_stdout (str ''1'' @ nl) rt)
      else if code = str ''print(2)''
      then at_once Returned (write_stdout (str ''2'' @ nl) rt)
      else if code = str ''print()''
      then at_once Returned (write_stdout nl rt)
      else if code = str ''print('LOTUS_OUTPUT:{"type":"text","content":"hi"}')''
      then at_once Returned
             (write_stdout (str ''LOTUS_OUTPUT:{"type":"text","content":"hi"}'' @ nl) rt)
      else if code = str ''print('LOTUS_OUTPUT:{bad')''
      then at_once Returned (write_stdout (str ''LOTUS_OUTPUT:{bad'' @ nl) rt)
      else if code = str ''print('a')'' @ nl @
                     str ''print('LOTUS_OUTPUT:{"type":"video","content":"x"}')''
      then at_once Returned
             (write_stdout (str ''a'' @ nl @
                            str ''LOTUS_OUTPUT:{"type":"video","content":"x"}'' @ nl) rt)
      else if code = str ''sys.stderr.write('warn')''
      then at_once Returned (write_stderr (str ''warn'') rt)
      else if code = str ''sys.stderr.write('warn')'' @ nl @ str ''while True: pass''
      then forever (write_stderr (str ''warn'') rt)
      else if code = str ''sys.stderr.write(chr(0) + 'abc')''
      then at_once Returned (write_stderr (0 # str ''abc'') rt)
      else if code = str ''plt.plot([1, 2])''
      then at_once Returned (rt\<lparr>current_plot := Some (str ''iVBORw0KGgo='')\<rparr>)
      else if code = str ''s = 'a' * 101''
      then at_once Returned (assign (str ''s'') (py_str (replicate 101 0x61)) rt)
      else at_once (Raised (Some (str ''invalid syntax'')) None) rt)\<close>

text \<open>The executor after a first successful \<open>initialize\<close> on the host.\<close>

definition session :: PythonExecutor where
  "session = snd (initialize host PythonExecutor)"

text \<open>Snippets that never come back, after a binding, a line of output, a warning.\<close>

definition bind_then_loop :: qstring where
  "bind_then_loop = str ''x = 1'' @ nl @ str ''while True: pass''"

definition print_then_loop :: qstring where
  "print_then_loop = str ''print(1)'' @ nl @ str ''while True: pass''"

definition warn_then_loop :: qstring where
  \<open>warn_then_loop = str ''sys.stderr.write('warn')'' @ nl @ str ''while True: pass''\<close>



text \<open>
  The session after the alarm has unwound the evaluation of \<open>bind_then_loop\<close>: the
  binding of \<open>x\<close> is there, \<open>SIGALRM\<close> is blocked, and nothing else has changed but the
  signals.
\<close>

definition after_timeout :: PythonExecutor where
  "after_timeout =
     (start session)\<lparr>runtime := assign (str ''x'') (py_int ''1'') (runtime (start session)),
                     emitted := emitted (start session) @ [executionFinished False],
                     sigalrmBlocked := True\<rparr>"

section \<open>Notions used in the properties\<close>

text \<open>An \<open>execute\<close> call ends by timeout: it reaches the evaluation and the handler unwinds it.\<close>

definition ending_of :: "(ending \<times> qstring \<times> qstring \<times> ExecutionResult \<times> PythonExecutor) option \<Rightarrow> ending option" where
  "ending_of run = map_option fst run"

definition timed_out :: "interpreter \<Rightarrow> Environment \<Rightarrow> PythonExecutor \<Rightarrow> qstring \<Rightarrow> bool" where
  "timed_out py env s code =
     (case begin_execute env s of
        Inl early \<Rightarrow> False
      | Inr s1 \<Rightarrow> ending_of (evaluate py env s1 code) = Some Unwound)"

text \<open>The result of an \<open>execute\<close> call, and the executor after it.\<close>

definition result_of :: "(ExecutionResult \<times> PythonExecutor) option \<Rightarrow> ExecutionResult option" where
  "result_of call = map_option fst call"

definition executor_after :: "(ExecutionResult \<times> PythonExecutor) option \<Rightarrow> PythonExecutor option" where
  "executor_after call = map_option snd call"

text \<open>
  The text an \<open>execute\<close> call has read from the stdout sink: empty on an early return and
  when the handler ran before the sink was read.
\<close>

definition stdout_captured :: "interpreter \<Rightarrow> Environment \<Rightarrow> PythonExecutor \<Rightarrow> qstring \<Rightarrow> qstring option" where
  "stdout_captured py env s code =
     (case begin_execute env s of
        Inl early \<Rightarrow> Some []
      | Inr s1 \<Rightarrow>
          (case evaluate py env s1 code of
             None \<Rightarrow> None
           | Some (how, stdoutText, stderrText, result, s2) \<Rightarrow> Some stdoutText))"

text \<open>Two consecutive \<open>execute\<close> calls on one session, with nothing in between.\<close>

definition execute_then :: "interpreter \<Rightarrow> Environment \<Rightarrow> PythonExecutor \<Rightarrow> qstring \<Rightarrow> qstring \<Rightarrow> (ExecutionResult \<times> PythonExecutor) option" where
  "execute_then py env s code1 code2 =
     (case execute py env s code1 of
        None \<Rightarrow> None
      | Some (result1, s1) \<Rightarrow> execute py env s1 code2)"

text \<open>
  The rule of the specification for the plain text: the lines strictly before the first
  line that starts with the sentinel, each with its line break, concatenated and trimmed.
\<close>

definition lines_before_sentinel :: "qstring \<Rightarrow> qstring" where
  "lines_before_sentinel stream =
     trimmed (concat (map (\<lambda>line. line @ nl)
       (takeWhile (\<lambda>line. \<not> startsWith line sentinel) (split 0x0A stream))))"




text \<open>The rendering of the exception an evaluation ended with, empty when it returned.\<close>

definition rendering :: "outcome \<Rightarrow> qstring" where
  "rendering oc =
     (case oc of
        Returned \<Rightarrow> []
      | Raised pValue pTraceback \<Rightarrow> render_error pValue pTraceback)"

text \<open>A text that comes through the conversion to a \<open>QString\<close> as it is.\<close>

definition plain :: "qstring \<Rightarrow> bool" where
  "plain text = (well_formed text \<and> 0 \<notin> set text)"

text \<open>The snapshot of the variables after one \<open>execute\<close> call.\<close>

definition snapshot_after :: "(ExecutionResult \<times> PythonExecutor) option \<Rightarrow> QJsonObject" where
  "snapshot_after call =
     (case call of
        None \<Rightarrow> []
      | Some (result, s) \<Rightarrow> getVariables s)"

section \<open>Facts about the parts of \<open>execute\<close>\<close>

lemma sentinel_not_empty: "sentinel \<noteq> []"
  by (simp add: sentinel_def str_def)

lemma plainText_takeWhile:
  "plainText ls =
     concat (map (\<lambda>line. line @ nl) (takeWhile (\<lambda>line. \<not> startsWith line sentinel) ls))"
  by (induction ls) auto

lemma trimmed_nl: "trimmed nl = []"
  by (simp add: trimmed_def nl_def isSpace_def)

lemma lines_before_sentinel_Nil: "lines_before_sentinel [] = []"
  using sentinel_not_empty
  by (simp add: lines_before_sentinel_def startsWith_def trimmed_nl eq_commute [of "[]"])

lemma combine_output_textOutput:
  "textOutput (combine_output out err r) =
     (if out = [] then textOutput r else lines_before_sentinel out)"
  by (simp add: combine_output_def Let_def lines_before_sentinel_def plainText_takeWhile)


lemma combine_output_plotData: "plotData (combine_output out err r) = plotData r"
  by (simp add: combine_output_def Let_def)


lemma combine_output_outputs:
  "outputs (combine_output out err r) =
     (if out = [] then outputs r
      else if lines_before_sentinel out = [] \<and> parseRichOutputs out = []
      then [\<lparr>type = Text, content = out, imageData = []\<rparr>]
      else parseRichOutputs out)"
  by (simp add: combine_output_def Let_def lines_before_sentinel_def plainText_takeWhile)

lemma combine_output_nothing: "combine_output [] [] r = r"
  by (simp add: combine_output_def)

lemma handle_outcome_fresh:
  "handle_outcome oc s = (r, s') \<Longrightarrow>
     textOutput r = [] \<and> outputs r = [] \<and> plotData r = [] \<and>
     success r = (oc = Returned) \<and> error r = rendering oc"
  by (auto simp: handle_outcome_def empty_result_def rendering_def split: outcome.splits)

lemma unwind_fresh:
  "unwind env s out err = (how, out', err', r, s') \<Longrightarrow>
     how = Unwound \<and> textOutput r = [] \<and> outputs r = [] \<and> plotData r = [] \<and>
     \<not> success r \<and> error r = timeout_message s"
  by (auto simp: unwind_def empty_result_def)

text \<open>What the region between \<open>alarm\<close> and \<open>alarm(0)\<close> leaves of the executor's own fields.\<close>

lemma capturePlot_fields:
  "initialized (capturePlot s) = initialized s"
  "executionInterrupted (capturePlot s) = executionInterrupted s"
  "executionTimeout (capturePlot s) = executionTimeout s"
  "pStdout (capturePlot s) = pStdout s"
  "pStderr (capturePlot s) = pStderr s"
  "runtime (capturePlot s) = runtime s"
  by (simp_all add: capturePlot_def split: option.splits)

lemma handle_outcome_fields:
  "handle_outcome oc s = (r, s') \<Longrightarrow>
     initialized s' = initialized s \<and> executionInterrupted s' = executionInterrupted s \<and>
     executionTimeout s' = executionTimeout s \<and> pStdout s' = pStdout s \<and>
     pStderr s' = pStderr s \<and> runtime s' = runtime s"
  by (auto simp: handle_outcome_def capturePlot_fields split: outcome.splits if_splits)

lemma take_stdout_fields:
  "take_stdout s = (out, s') \<Longrightarrow>
     initialized s' = initialized s \<and> executionInterrupted s' = executionInterrupted s \<and>
     executionTimeout s' = executionTimeout s \<and> pStderr s' = pStderr s \<and>
     globals (runtime s') = globals (runtime s) \<and>
     stderr_output (runtime s') = stderr_output (runtime s)"
  by (auto simp: take_stdout_def split: if_splits option.splits)

lemma take_stderr_fields:
  "take_stderr s = (err, s') \<Longrightarrow>
     initialized s' = initialized s \<and> executionInterrupted s' = executionInterrupted s \<and>
     executionTimeout s' = executionTimeout s \<and>
     globals (runtime s') = globals (runtime s)"
  by (auto simp: take_stderr_def split: if_splits option.splits)

lemma unwind_fields:
  "unwind env s out err = (how, out', err', r, s') \<Longrightarrow>
     initialized s' = initialized s \<and> executionInterrupted s' = executionInterrupted s \<and>
     executionTimeout s' = executionTimeout s \<and> runtime s' = runtime s"
  by (auto simp: unwind_def)

text \<open>
  The evaluation as a chain of four steps, each either cut short by the handler or
  handing on to the next.
\<close>

lemma evaluate_cases:
  assumes "evaluate py env s code = Some (how, out, err, r, s')"
  obtains
    (cut) ms where
      "unwind env (s\<lparr>runtime := state_at (py code (runtime s)) ms\<rparr>) [] [] = (how, out, err, r, s')"
  | (in_stdout) t oc r0 s2 where
      "handle_outcome oc (s\<lparr>runtime := state_at (py code (runtime s)) t\<rparr>) = (r0, s2)"
      "unwind env s2 [] [] = (how, out, err, r, s')"
  | (in_stderr) t oc r0 s2 o1 s3 where
      "handle_outcome oc (s\<lparr>runtime := state_at (py code (runtime s)) t\<rparr>) = (r0, s2)"
      "take_stdout s2 = (o1, s3)"
      "unwind env s3 o1 [] = (how, out, err, r, s')"
  | (completed) t oc s2 s3 where
      "finish (py code (runtime s)) = Some (t, oc)"
      "handle_outcome oc (s\<lparr>runtime := state_at (py code (runtime s)) t\<rparr>) = (r, s2)"
      "take_stdout s2 = (out, s3)"
      "take_stderr s3 = (err, s')"
      "how = Completed"
proof (cases "finish (py code (runtime s))")
  case None
  with assms cut show ?thesis
    by (auto simp: evaluate_def Let_def split: option.splits)
next
  case (Some f)
  obtain t oc where f: "f = (t, oc)" by (cases f)
  let ?s1 = "s\<lparr>runtime := state_at (py code (runtime s)) t\<rparr>"
  obtain r0 s2 where h: "handle_outcome oc ?s1 = (r0, s2)" by (cases "handle_outcome oc ?s1")
  obtain o1 s3 where so: "take_stdout s2 = (o1, s3)" by (cases "take_stdout s2")
  obtain e1 s4 where se: "take_stderr s3 = (e1, s4)" by (cases "take_stderr s3")
  from assms Some f h so se show ?thesis
    unfolding evaluate_def Let_def
    by (simp split: option.splits)
       (use cut in_stdout in_stderr completed Some f h so se in \<open>auto\<close>)
qed

lemma evaluate_fresh:
  assumes "evaluate py env s code = Some (how, out, err, r, s')"
  shows "textOutput r = [] \<and> outputs r = [] \<and> plotData r = []"
  using assms
proof (cases rule: evaluate_cases)
  case (completed t oc s2 s3)
  from handle_outcome_fresh [OF completed(2)] show ?thesis by simp
qed (auto dest: unwind_fresh)

lemma evaluate_fields:
  assumes "evaluate py env s code = Some (how, out, err, r, s')"
  shows "initialized s' = initialized s \<and> executionInterrupted s' = executionInterrupted s \<and>
         executionTimeout s' = executionTimeout s"
  using assms
proof (cases rule: evaluate_cases)
  case (cut ms)
  from unwind_fields [OF this] show ?thesis by simp
next
  case (in_stdout t oc r0 s2)
  from unwind_fields [OF in_stdout(2)] handle_outcome_fields [OF in_stdout(1)]
  show ?thesis by simp
next
  case (in_stderr t oc r0 s2 o1 s3)
  from unwind_fields [OF in_stderr(3)] handle_outcome_fields [OF in_stderr(1)]
    take_stdout_fields [OF in_stderr(2)]
  show ?thesis by simp
next
  case (completed t oc s2 s3)
  from handle_outcome_fields [OF completed(2)] take_stdout_fields [OF completed(3)]
    take_stderr_fields [OF completed(4)]
  show ?thesis by simp
qed

lemma begin_execute_early:
  "begin_execute env s = Inl (r, s') \<Longrightarrow>
     \<not> success r \<and> textOutput r = [] \<and> outputs r = [] \<and> plotData r = []"
  by (auto simp: begin_execute_def Let_def empty_result_def split: if_splits prod.splits)

lemma initialize_True: "initialize env s = (True, s') \<Longrightarrow> initialized s'"
  by (auto simp: initialize_def Let_def cleanup_def
           split: if_splits option.splits prod.splits bool.splits)

lemma start_fields:
  "initialized (start s) = initialized s"
  "executionInterrupted (start s) = executionInterrupted s"
  "executionTimeout (start s) = executionTimeout s"
  "globals (runtime (start s)) = globals (runtime s)"
  by (simp_all add: start_def Let_def clear_plots_def)

lemma begin_execute_ready:
  "begin_execute env s = Inr s1 \<Longrightarrow> initialized s1 \<and> \<not> executionInterrupted s1"
  by (auto simp: begin_execute_def Let_def start_fields split: if_splits prod.splits
           dest: initialize_True)

lemma begin_execute_initialized:
  assumes "initialized s" and "\<not> executionInterrupted s"
  shows "begin_execute env s = Inr (start s)"
proof -
  from assms(2) have same: "s\<lparr>executionInterrupted := False\<rparr> = s" by (cases s) simp
  from assms(1) have "begin_execute env s = Inr (start (s\<lparr>executionInterrupted := False\<rparr>))"
    by (simp add: begin_execute_def Let_def)
  then show ?thesis by (simp only: same)
qed

lemma timed_out_cases:
  assumes "timed_out py env s code"
  obtains sr out err r s2 where "begin_execute env s = Inr sr"
    and "evaluate py env sr code = Some (Unwound, out, err, r, s2)"
proof (cases "begin_execute env s")
  case (Inl early)
  with assms show ?thesis by (simp add: timed_out_def)
next
  case (Inr sr)
  with assms obtain run where "evaluate py env sr code = Some run" and "fst run = Unwound"
    by (auto simp: timed_out_def ending_of_def)
  with Inr that show ?thesis by (cases run) auto
qed

text \<open>When the region completes, both sinks are left empty.\<close>

lemma sinks_cleared_on_completion:
  assumes "evaluate py env s code = Some (Completed, out, err, r, s')"
    and "pStdout s" and "pStderr s"
  shows "stdout_output (runtime s') \<in> {None, Some []} \<and>
         stderr_output (runtime s') \<in> {None, Some []}"
  using assms(1)
proof (cases rule: evaluate_cases)
  case (completed t oc s2 s3)
  from handle_outcome_fields [OF completed(2)] assms(2,3)
  have p: "pStdout s2" "pStderr s2" by simp_all
  with completed(3) have "stdout_output (runtime s3) \<in> {None, Some []}" "pStderr s3"
    by (auto simp: take_stdout_def split: option.splits)
  with completed(4) show ?thesis
    by (auto simp: take_stderr_def split: option.splits)
qed (auto simp: unwind_def)

subsection \<open>Lines\<close>








subsection \<open>The snapshot as a map\<close>

lemma fromUtf8_plain: "plain text \<Longrightarrow> fromUtf8 (PyUnicode_AsUTF8 text) = text"
  by (auto simp: plain_def fromUtf8_def PyUnicode_AsUTF8_def takeWhile_eq_all_conv intro!: gr0I)

lemma map_of_bind: "map_of (bind k v ns) = (map_of ns)(k \<mapsto> v)"
  by (induction ns) (auto simp: fun_eq_iff)

lemma bind_keys: "fst ` set (bind k v ns) = insert k (fst ` set ns)"
  by (simp add: dom_map_of_conv_image_fst [symmetric] map_of_bind)

lemma bind_all_keys: "fst ` set (bind_all env names ns) = set names \<union> fst ` set ns"
  unfolding bind_all_def
  by (induction names arbitrary: ns) (auto simp: bind_keys)

lemma map_of_insert_member: "map_of (insert_member k v obj) = (map_of obj)(k \<mapsto> v)"
  by (induction obj) (auto simp: fun_eq_iff)

lemma map_of_add_variable:
  "map_of (add_variable (key, obj) vars) =
     (if private_name (fromUtf8 (PyUnicode_AsUTF8 key)) \<or>
         internal_name (fromUtf8 (PyUnicode_AsUTF8 key))
      then map_of vars
      else (map_of vars)(fromUtf8 (PyUnicode_AsUTF8 key) \<mapsto>
             JObject [(str ''type'', JString (text_of (type_name obj))),
                      (str ''value'', JString (text_of (repr_text obj)))]))"
  by (simp add: add_variable_def Let_def map_of_insert_member)

lemma fold_add_variable_keeps:
  "map_of vs name \<noteq> None \<Longrightarrow> map_of (fold add_variable cs vs) name \<noteq> None"
proof (induction cs arbitrary: vs)
  case Nil
  then show ?case by simp
next
  case (Cons c cs)
  obtain k w where c: "c = (k, w)" by (cases c)
  from Cons.prems have "map_of (add_variable c vs) name \<noteq> None"
    by (simp add: c map_of_add_variable)
  then show ?case using Cons.IH by simp
qed

lemma fold_add_variable_other:
  "\<forall>k\<in>fst ` set cs. plain k \<Longrightarrow> name \<notin> fst ` set cs \<Longrightarrow>
     map_of (fold add_variable cs vs) name = map_of vs name"
proof (induction cs arbitrary: vs)
  case Nil
  then show ?case by simp
next
  case (Cons c cs)
  obtain k w where c: "c = (k, w)" by (cases c)
  with Cons.prems have "k \<noteq> name" "plain k" by auto
  then have "map_of (add_variable c vs) name = map_of vs name"
    by (simp add: c map_of_add_variable fromUtf8_plain)
  with Cons show ?case by simp
qed

text \<open>Every plain name of the dictionary that is not skipped is in the snapshot.\<close>

lemma visible_in_snapshot:
  "name \<in> fst ` set ns \<Longrightarrow> plain name \<Longrightarrow> \<not> private_name name \<Longrightarrow>
     \<not> internal_name name \<Longrightarrow> map_of (fold add_variable ns vars) name \<noteq> None"
proof (induction ns arbitrary: vars)
  case Nil
  then show ?case by simp
next
  case (Cons b ns)
  obtain k w where b: "b = (k, w)" by (cases b)
  show ?case
  proof (cases "k = name")
    case True
    with Cons.prems b have "map_of (add_variable b vars) name \<noteq> None"
      by (simp add: map_of_add_variable fromUtf8_plain)
    then show ?thesis using fold_add_variable_keeps by simp
  next
    case False
    with Cons.prems b have "name \<in> fst ` set ns" by auto
    with Cons show ?thesis by simp
  qed
qed

text \<open>
  The snapshot records the \<open>repr\<close> of a binding as the conversion gives it, whatever
  its length.
\<close>

lemma snapshot_verbatim:
  assumes "distinct (map fst ns)" and "\<forall>k\<in>fst ` set ns. plain k" and "(name, obj) \<in> set ns"
    and "\<not> private_name name" and "\<not> internal_name name"
  shows "map_of (fold add_variable ns vars) name =
           Some (JObject [(str ''type'', JString (text_of (type_name obj))),
                          (str ''value'', JString (text_of (repr_text obj)))])"
  using assms
proof (induction ns arbitrary: vars)
  case Nil
  then show ?case by simp
next
  case (Cons b ns)
  obtain k w where b: "b = (k, w)" by (cases b)
  show ?case
  proof (cases "(name, obj) \<in> set ns")
    case True
    with Cons show ?thesis by simp
  next
    case False
    with Cons.prems b have eq: "k = name" "w = obj" by auto
    with Cons.prems b have "name \<notin> fst ` set ns" "\<forall>k\<in>fst ` set ns. plain k" "plain name"
      by auto
    from fold_add_variable_other [OF this(2,1)] this(3) b eq Cons.prems(4,5) show ?thesis
      by (simp add: map_of_add_variable fromUtf8_plain)
  qed
qed

text \<open>The helper of the inspector does cap a text at 100 characters.\<close>

lemma parsePythonValue_short: "length r \<le> 100 \<Longrightarrow> parsePythonValue r = r"
  by (simp add: parsePythonValue_def)

lemma parsePythonValue_long:
  "100 < length r \<Longrightarrow> parsePythonValue r = take 100 r @ str ''...''"
  by (simp add: parsePythonValue_def)

subsection \<open>Restart\<close>

lemma initialize_binds_sys:
  assumes "\<not> initialized s" and "initialize env s = (True, s')"
  shows "pGlobals s' \<and> str ''sys'' \<in> fst ` set (globals (runtime s'))"
  using assms
  by (auto simp: initialize_def Let_def cleanup_def setupStdoutRedirection_def
                 setupPlotCapture_def bind_all_keys
           split: if_splits option.splits prod.splits bool.splits)

lemma initialize_result: "initialized (snd (initialize env s)) \<Longrightarrow> fst (initialize env s)"
  by (auto simp: initialize_def Let_def cleanup_def setupStdoutRedirection_def
           split: if_splits option.splits prod.splits bool.splits)

lemma cleanup_uninitialized: "\<not> initialized (cleanup s)"
  by (simp add: cleanup_def)

lemma sys_is_shown:
  "plain (str ''sys'') \<and> \<not> private_name (str ''sys'') \<and> \<not> internal_name (str ''sys'')"
  by code_simp

text \<open>Whenever a restart succeeds, the snapshot that follows it has an entry for \<open>sys\<close>.\<close>

lemma restart_snapshot_has_sys:
  assumes "initialized (restart env s)"
  shows "map_of (getVariables (restart env s)) (str ''sys'') \<noteq> None"
proof -
  from assms have "fst (initialize env (cleanup s))"
    unfolding restart_def by (rule initialize_result)
  then have i: "initialize env (cleanup s) = (True, restart env s)"
    by (simp add: restart_def prod_eq_iff)
  from initialize_binds_sys [OF cleanup_uninitialized i]
  have g: "pGlobals (restart env s)" "str ''sys'' \<in> fst ` set (globals (runtime (restart env s)))"
    by simp_all
  from g(2) sys_is_shown
  have "map_of (fold add_variable (globals (runtime (restart env s))) []) (str ''sys'') \<noteq> None"
    by (intro visible_in_snapshot) simp_all
  with assms g(1) show ?thesis by (simp add: getVariables_def)
qed

text \<open>A successful restart builds the interpreter state anew, whatever the old one was.\<close>

lemma restart_discards_runtime:
  "initialized (restart env s) \<Longrightarrow>
     runtime (restart env (s\<lparr>runtime := rt\<rparr>)) = runtime (restart env s)"
  by (auto simp: restart_def initialize_def Let_def cleanup_def setupStdoutRedirection_def
                 setupPlotCapture_def
           split: if_splits option.splits prod.splits bool.splits)

subsection \<open>The alarm\<close>

lemma alarm_seconds_whole:
  assumes "1000 \<le> executionTimeout s" and "executionTimeout s < 2 ^ 31"
  shows "alarm_seconds s \<noteq> 0 \<and> alarm_seconds s * 1000 \<le> nat (executionTimeout s)"
proof -
  let ?t = "executionTimeout s"
  from assms have q: "cdiv ?t 1000 = ?t div 1000"
    by (simp add: cdiv_def)
  from assms have lo: "1 \<le> ?t div 1000" and hi: "?t div 1000 < 2 ^ 32"
    by simp_all
  then have "(?t div 1000) mod 2 ^ 32 = ?t div 1000"
    by simp
  with q have a: "alarm_seconds s = nat (?t div 1000)"
    by (simp add: alarm_seconds_def)
  have "(?t div 1000) * 1000 \<le> ?t" by simp
  with lo a assms show ?thesis
    by (simp add: nat_le_eq_zle nat_mult_distrib le_nat_iff)
qed

text \<open>
  With a timeout of at least one second and \<open>SIGALRM\<close> not blocked, an evaluation that
  takes longer than the timeout is unwound and reported.
\<close>

lemma timeout_reported:
  assumes "begin_execute env s = Inr s1"
    and "1000 \<le> executionTimeout s1" and "executionTimeout s1 < 2 ^ 31"
    and "\<not> sigalrmBlocked s1"
    and "case finish (py code (runtime s1)) of
           None \<Rightarrow> True
         | Some (t, oc) \<Rightarrow> nat (executionTimeout s1) < t"
  shows "result_of (execute py env s code) =
           Some (empty_result\<lparr>success := False, error := timeout_message s1\<rparr>)"
proof -
  from alarm_seconds_whole [OF assms(2,3)] assms(4)
  have d: "deadline s1 = Some (alarm_seconds s1 * 1000)"
    and a: "alarm_seconds s1 * 1000 \<le> nat (executionTimeout s1)"
    by (simp_all add: deadline_def)
  let ?rt = "state_at (py code (runtime s1)) (alarm_seconds s1 * 1000)"
  from d a assms(5) have "evaluate py env s1 code = Some (unwind env (s1\<lparr>runtime := ?rt\<rparr>) [] [])"
    by (auto simp: evaluate_def Let_def fired_def split: option.splits)
  with assms(1) show ?thesis
    by (simp add: execute_def unwind_def timeout_message_def result_of_def Let_def
                  combine_output_nothing)
qed

text \<open>While \<open>SIGALRM\<close> is blocked, a call whose evaluation never comes back never returns.\<close>

lemma no_timeout_while_blocked:
  assumes "begin_execute env s = Inr s1" and "sigalrmBlocked s1"
    and "finish (py code (runtime s1)) = None"
  shows "execute py env s code = None"
  using assms by (simp add: execute_def evaluate_def deadline_def Let_def)

text \<open>No path of \<open>execute\<close> writes \<open>plotData\<close>.\<close>

lemma execute_plotData_empty:
  assumes "execute py env s code = Some (r, s')"
  shows "plotData r = []"
proof (cases "begin_execute env s")
  case (Inl early)
  with assms show ?thesis
    by (cases early) (auto simp: execute_def dest: begin_execute_early)
next
  case (Inr s1)
  with assms obtain how out err r0 s2 where
    e: "evaluate py env s1 code = Some (how, out, err, r0, s2)" and
    r: "r = combine_output out err r0"
    by (auto simp: execute_def Let_def split: option.splits)
  from evaluate_fresh [OF e] r show ?thesis
    by (simp add: combine_output_plotData)
qed


text \<open>
  Once a first call has been unwound, \<open>SIGALRM\<close> is blocked on the host, and a second
  call whose evaluation never comes back never returns.
\<close>

lemma timeout_fires_once:
  "execute_then python host session bind_then_loop (str ''while True: pass'') = None"
  by code_simp

subsection \<open>Standard error on a completed evaluation\<close>

text \<open>
  When the evaluation completes, the text of the stderr sink is in the error of the
  result, also on success; it is read as a C string and stops at the first NUL.
\<close>

lemma stderr_copied_on_success:
  \<open>result_of (execute python host session (str ''sys.stderr.write('warn')'')) =
     Some \<lparr>success = True, textOutput = [], error = str ''warn'', plotData = [],
           outputs = []\<rparr>\<close>
  by code_simp

lemma stderr_cut_at_nul:
  \<open>result_of (execute python host session (str ''sys.stderr.write(chr(0) + 'abc')'')) =
     Some \<lparr>success = True, textOutput = [], error = [], plotData = [], outputs = []\<rparr>\<close>
  by code_simp
section \<open>The rich output protocol: plain text and fallback\<close>

text \<open>
  Claim C6. For every \<open>execute\<close> call, \<open>textOutput\<close> is the concatenation, trimmed, of
  the lines of the captured stdout stream that come strictly before the first line
  starting with \<open>LOTUS_OUTPUT:\<close>, each line taken with its line break; the call
  returns exactly when it has a captured stream. In particular a snippet whose whole
  output is the line \<open>LOTUS_OUTPUT:{"type":"text","content":"hi"}\<close> gives exactly one
  output, of type \<open>Text\<close> with content \<open>hi\<close>, and an empty \<open>textOutput\<close>.
\<close>

theorem textOutput_lines_before_sentinel:
  \<open>map_option textOutput (result_of (execute py env s code)) =
     map_option lines_before_sentinel (stdout_captured py env s code) \<and>
   result_of (execute python host session
                (str ''print('LOTUS_OUTPUT:{"type":"text","content":"hi"}')'')) =
     Some \<lparr>success = True, textOutput = [], error = [], plotData = [],
           outputs = [\<lparr>type = Text, content = str ''hi'', imageData = []\<rparr>]\<rparr>\<close>
proof
  show "map_option textOutput (result_of (execute py env s code)) =
     map_option lines_before_sentinel (stdout_captured py env s code)"
  proof (cases "begin_execute env s")
    case (Inl early)
    then show ?thesis
      by (cases early)
         (auto simp: execute_def stdout_captured_def result_of_def lines_before_sentinel_Nil
               dest: begin_execute_early)
  next
    case (Inr s1)
    show ?thesis
    proof (cases "evaluate py env s1 code")
      case None
      with Inr show ?thesis
        by (simp add: execute_def stdout_captured_def result_of_def)
    next
      case (Some e)
      then obtain how out err r s2 where
        e: "evaluate py env s1 code = Some (how, out, err, r, s2)"
        by (cases e) auto
      from evaluate_fresh [OF e] have "textOutput r = []" by simp
      with Inr e show ?thesis
        by (simp add: execute_def stdout_captured_def result_of_def Let_def
                      combine_output_textOutput lines_before_sentinel_Nil)
    qed
  qed
  show \<open>result_of (execute python host session
                (str ''print('LOTUS_OUTPUT:{"type":"text","content":"hi"}')'')) =
     Some \<lparr>success = True, textOutput = [], error = [], plotData = [],
           outputs = [\<lparr>type = Text, content = str ''hi'', imageData = []\<rparr>]\<rparr>\<close>
    by code_simp
qed

text \<open>
  Claim C8. For every \<open>execute\<close> call whose captured raw stdout stream is not empty: if
  after the parsing of the protocol both the plain text and the list of outputs are
  empty, then \<open>outputs\<close> is exactly one output of type \<open>Text\<close> whose content is the
  whole raw stream.
\<close>

theorem fallback_wraps_raw_stream:
  assumes "stdout_captured py env s code = Some stream"
    and "stream \<noteq> []"
    and "lines_before_sentinel stream = []"
    and "parseRichOutputs stream = []"
  shows "map_option outputs (result_of (execute py env s code)) =
           Some [\<lparr>type = Text, content = stream, imageData = []\<rparr>]"
proof (cases "begin_execute env s")
  case (Inl early)
  with assms show ?thesis by (simp add: stdout_captured_def)
next
  case (Inr s1)
  with assms(1) obtain how err r s2 where
    e: "evaluate py env s1 code = Some (how, stream, err, r, s2)"
    by (auto simp: stdout_captured_def split: option.splits)
  with Inr assms(2-4) show ?thesis
    by (simp add: execute_def result_of_def Let_def combine_output_outputs)
qed

theorem fallback_wraps_raw_stream_witness:
  "stdout_captured python host session (str ''print()'') = Some nl \<and> nl \<noteq> [] \<and>
   lines_before_sentinel nl = [] \<and> parseRichOutputs nl = [] \<and>
   map_option outputs (result_of (execute python host session (str ''print()''))) =
     Some [\<lparr>type = Text, content = nl, imageData = []\<rparr>]"
proof -
  have 1: "stdout_captured python host session (str ''print()'') = Some nl" by code_simp
  have 2: "nl \<noteq> []" by (simp add: nl_def)
  have 3: "lines_before_sentinel nl = []" by code_simp
  have 4: "parseRichOutputs nl = []" by code_simp
  from fallback_wraps_raw_stream [OF 1 2 3 4] 1 2 3 4 show ?thesis by simp
qed




section \<open>Standard error\<close>

text \<open>
  Claim C10 asks that for every \<open>execute\<close> call the text the snippet wrote to stderr is
  copied into the error of the result. The code reads the stderr sink inside the branch
  of \<open>setjmp\<close> that the evaluation comes back to, and not in the branch of the timeout:
  the call below writes \<open>warn\<close> to stderr and is unwound by the alarm, the error of its
  result is the timeout message alone, and \<open>warn\<close> is still in the sink.
\<close>

theorem stderr_lost_on_timeout:
  "timed_out python host session warn_then_loop \<and>
   result_of (execute python host session warn_then_loop) =
     Some \<lparr>success = False, textOutput = [],
           error = str ''Execution timed out after 10 seconds'',
           plotData = [], outputs = []\<rparr> \<and>
   map_option stderr_output
     (map_option runtime (executor_after (execute python host session warn_then_loop))) =
     Some (Some (str ''warn''))"
  by code_simp

section \<open>Timeouts\<close>

text \<open>
  Claim C1, as amended. After an \<open>execute\<close> call that ends by timeout the session is
  still initialized and the next \<open>execute\<close> is neither refused nor preceded by a
  restart: it passes the checks at its entry and starts from the executor as the timeout
  left it, on the same namespace.
\<close>

theorem next_execute_runs_after_timeout:
  assumes "timed_out py env s code1"
    and "execute py env s code1 = Some (result1, s1)"
  shows "initialized s1 \<and> begin_execute env s1 = Inr (start s1) \<and>
         globals (runtime (start s1)) = globals (runtime s1)"
proof -
  from assms(1) obtain sr out err r s2 where
    b: "begin_execute env s = Inr sr" and
    e: "evaluate py env sr code1 = Some (Unwound, out, err, r, s2)"
    by (rule timed_out_cases)
  from b e assms(2)
  have s1: "s1 = s2\<lparr>emitted := emitted s2 @
                       [executionFinished (success (combine_output out err r))]\<rparr>"
    by (auto simp: execute_def Let_def)
  from begin_execute_ready [OF b] evaluate_fields [OF e] s1
  have ready: "initialized s1" "\<not> executionInterrupted s1"
    by simp_all
  then have "begin_execute env s1 = Inr (start s1)"
    by (rule begin_execute_initialized)
  with ready show ?thesis by (simp add: start_fields)
qed

theorem next_execute_runs_after_timeout_witness:
  "timed_out python host session bind_then_loop \<and>
   execute python host session bind_then_loop =
     Some (empty_result\<lparr>error := str ''Execution timed out after 10 seconds''\<rparr>,
           after_timeout) \<and>
   initialized after_timeout \<and> begin_execute host after_timeout = Inr (start after_timeout) \<and>
   globals (runtime (start after_timeout)) = globals (runtime after_timeout)"
proof -
  have 1: "timed_out python host session bind_then_loop" by code_simp
  have 2: "execute python host session bind_then_loop =
     Some (empty_result\<lparr>error := str ''Execution timed out after 10 seconds''\<rparr>,
           after_timeout)"
    by code_simp
  from next_execute_runs_after_timeout [OF 1 2] 1 2 show ?thesis by blast
qed

text \<open>
  The claim as it was stated fails: the first call binds \<open>x\<close> and is unwound by the
  alarm; with no restart in between, the second call evaluates \<open>print(x)\<close>, finds the
  binding and succeeds.
\<close>

theorem code_evaluated_after_timeout_without_restart:
  "timed_out python host session bind_then_loop \<and>
   result_of (execute_then python host session bind_then_loop (str ''print(x)'')) =
     Some \<lparr>success = True, textOutput = str ''1'', error = [], plotData = [], outputs = []\<rparr>"
  by code_simp

text \<open>
  Claim C2 asks that no text written during one call appears in the next call, also
  when the first call ended by timeout. The code reads and clears the sinks on the
  path of a completed evaluation only: the first call below prints \<open>1\<close> and is unwound by
  the alarm, and the second call, which prints \<open>2\<close>, returns both lines.
\<close>

theorem timeout_leaks_output_into_next_call:
  "timed_out python host session print_then_loop \<and>
   result_of (execute_then python host session print_then_loop (str ''print(2)'')) =
     Some \<lparr>success = True, textOutput = str ''1'' @ nl @ str ''2'', error = [], plotData = [],
           outputs = []\<rparr>"
  by code_simp

text \<open>
  Claim C3 asks that every call whose evaluation exceeds the timeout returns with
  \<open>success = false\<close> and an error that mentions the timeout, with a timeout of 100 ms
  and the code \<open>while True: pass\<close> as its example. The code arms the alarm for the
  timeout divided by 1000 in whole seconds: for 100 ms that is \<open>alarm(0)\<close>, no alarm is
  armed, and the call never returns.
\<close>

theorem subsecond_timeout_never_fires:
  "alarm_seconds (setExecutionTimeout 100 session) = 0 \<and>
   execute python host (setExecutionTimeout 100 session) (str ''while True: pass'') = None"
  by code_simp

section \<open>Plots\<close>

text \<open>
  Claim C4 asks that after a successful call with plot capture enabled the rendered
  figure is attached to \<open>plotData\<close> of the result as decoded bytes. The code decodes the
  figure and emits it with the signal \<open>plotGenerated\<close>, and leaves \<open>plotData\<close> empty: the
  call below renders a figure whose bytes are the PNG signature.
\<close>

theorem plot_emitted_but_not_attached:
  "result_of (execute python host session (str ''plt.plot([1, 2])'')) =
     Some \<lparr>success = True, textOutput = [], error = [], plotData = [], outputs = []\<rparr> \<and>
   map_option emitted
     (executor_after (execute python host session (str ''plt.plot([1, 2])''))) =
     Some [executionStarted,
           plotGenerated [0x89, 0x50, 0x4E, 0x47, 0x0D, 0x0A, 0x1A, 0x0A],
           executionFinished True]"
  by code_simp

section \<open>The variable snapshot\<close>

text \<open>
  Claim C5 asks that the snapshot after \<open>restart()\<close> is empty. The restart does build a
  new namespace, but the bootstrap scripts of \<open>initialize\<close> bind their own names in it
  and the snapshot skips none of them, nor the \<open>__annotations__\<close> of a fresh \<open>__main__\<close>:
  after a restart on the host the snapshot has these ten names, in the order of the keys.
\<close>

theorem snapshot_after_restart_not_empty:
  "initialized (restart host session) \<and>
   map fst (getVariables (restart host session)) =
     [str ''LotusStdoutCapture'', str ''PlotCapture'', str ''__annotations__'',
      str ''base64'', str ''io'', str ''lotus_plot_capture'', str ''matplotlib'',
      str ''plt'', str ''signal'', str ''sys'']"
  by code_simp

text \<open>
  Claim C9 asks that the representation recorded in the snapshot is capped at 100
  characters, with an ellipsis after it when the full text is longer. The snapshot
  records the full text: a string of 101 letters is recorded with its 103 characters.
\<close>

theorem snapshot_repr_not_capped:
  \<open>map_of (snapshot_after (execute python host session (str ''s = 'a' * 101''))) (str ''s'') =
     Some (JObject [(str ''type'', JString (str ''str'')),
                    (str ''value'', JString (0x27 # replicate 101 0x61 @ [0x27]))]) \<and>
   length (0x27 # replicate 101 0x61 @ [0x27] :: qstring) = 103\<close>
  by code_simp
end
